theory Spec2Isabelle
  imports Complex_Main "HOL-Library.Sublist"
begin

section \<open>The crawler of developers-italia-backend (crawler/crawler/crawler.go)\<close>

text \<open>
  The source file holds two generations of the crawler. The development below embeds the
  later one (the second \<^verbatim>\<open>package crawler\<close> of the file): \<^verbatim>\<open>removeBlackListedFromRepositories\<close>,
  \<^verbatim>\<open>crawl\<close>, \<^verbatim>\<open>CrawlRepo\<close>, \<^verbatim>\<open>CrawlPublishers\<close>, \<^verbatim>\<open>CrawlPublisher\<close>, \<^verbatim>\<open>CrawlOrg\<close>,
  \<^verbatim>\<open>ProcessRepositories\<close>, \<^verbatim>\<open>ProcessRepo\<close>, \<^verbatim>\<open>validateRemoteFile\<close>, \<^verbatim>\<open>getRemoteFile\<close> and
  \<^verbatim>\<open>validateFile\<close>.

  Go strings are byte sequences; they are \<^typ>\<open>string\<close> here. An \<^verbatim>\<open>error\<close> value is its
  message, \<^verbatim>\<open>nil\<close> is \<^term>\<open>None\<close>.
\<close>

subsection \<open>The functions of package strings that the crawler calls\<close>

text \<open>
  Package \<^verbatim>\<open>strings\<close> reads a string as UTF-8: a character (a rune) is a code point, here a
  natural number, and a byte that starts no valid encoding is read as the one-byte
  character \<^verbatim>\<open>utf8.RuneError\<close> (U+FFFD). \<^verbatim>\<open>utf8.DecodeRuneInString\<close> returns the first
  character of a string and the number of bytes of its encoding.
\<close>

definition RuneError :: nat where
  "RuneError = 65533"

definition continuation :: "char \<Rightarrow> bool" where
  "continuation c = (128 \<le> (of_char c :: nat) \<and> (of_char c :: nat) \<le> 191)"

fun DecodeRune :: "string \<Rightarrow> nat \<times> nat" where
  "DecodeRune [] = (RuneError, 0)"
| "DecodeRune (c0 # s) =
     (let s0 = (of_char c0 :: nat) in
      if s0 < 128 then (s0, 1)
      else if s0 < 194 then (RuneError, 1)
      else if s0 < 224 then
        (case s of
           c1 # s1 \<Rightarrow>
             if continuation c1 then ((s0 mod 32) * 64 + of_char c1 mod 64, 2)
             else (RuneError, 1)
         | [] \<Rightarrow> (RuneError, 1))
      else if s0 < 240 then
        (case s of
           c1 # c2 # s2 \<Rightarrow>
             if (if s0 = 224 then 160 else 128) \<le> (of_char c1 :: nat)
                \<and> (of_char c1 :: nat) \<le> (if s0 = 237 then 159 else 191)
                \<and> continuation c2
             then ((s0 mod 16) * 4096 + (of_char c1 mod 64) * 64 + of_char c2 mod 64, 3)
             else (RuneError, 1)
         | _ \<Rightarrow> (RuneError, 1))
      else if s0 < 245 then
        (case s of
           c1 # c2 # c3 # s3 \<Rightarrow>
             if (if s0 = 240 then 144 else 128) \<le> (of_char c1 :: nat)
                \<and> (of_char c1 :: nat) \<le> (if s0 = 244 then 143 else 191)
                \<and> continuation c2 \<and> continuation c3
             then ((s0 mod 8) * 262144 + (of_char c1 mod 64) * 4096
                   + (of_char c2 mod 64) * 64 + of_char c3 mod 64, 4)
             else (RuneError, 1)
         | _ \<Rightarrow> (RuneError, 1))
      else (RuneError, 1))"

text \<open>
  \<^verbatim>\<open>utf8.DecodeLastRuneInString\<close> returns the last character. A last byte below 128 is that
  character. Otherwise the function looks for a start byte among the three bytes before the
  last one, the nearest first, decodes from there, and returns what it decoded when the
  encoding ends with the string; in every other case the last byte alone is read as
  \<^verbatim>\<open>RuneError\<close>.
\<close>

definition RuneStart :: "char \<Rightarrow> bool" where
  "RuneStart c = ((of_char c :: nat) div 64 \<noteq> 2)"

fun start_back :: "string \<Rightarrow> nat \<Rightarrow> nat option" where
  "start_back [] k = None"
| "start_back (b # bs) k =
     (if 4 < k then None else if RuneStart b then Some k else start_back bs (Suc k))"

definition DecodeLastRune :: "string \<Rightarrow> nat \<times> nat" where
  "DecodeLastRune s =
     (case rev s of
        [] \<Rightarrow> (RuneError, 0)
      | b # bs \<Rightarrow>
          if (of_char b :: nat) < 128 then (of_char b, 1)
          else
            (case start_back bs 2 of
               None \<Rightarrow> (RuneError, 1)
             | Some k \<Rightarrow>
                 if snd (DecodeRune (drop (length s - k) s)) = k
                 then DecodeRune (drop (length s - k) s)
                 else (RuneError, 1)))"

text \<open>The characters of a string, as a \<^verbatim>\<open>range\<close> loop reads them.\<close>

function runes :: "string \<Rightarrow> nat list" where
  "runes [] = []"
| "runes (c # s) = fst (DecodeRune (c # s)) # runes (drop (snd (DecodeRune (c # s))) (c # s))"
  by pat_completeness auto
termination
proof (relation "measure length")
  show "wf (measure length)" by simp
next
  fix c :: char and s :: string
  have "0 < snd (DecodeRune (c # s))"
    by (simp add: Let_def split: list.split)
  then show "(drop (snd (DecodeRune (c # s))) (c # s), c # s) \<in> measure length"
    by (simp del: DecodeRune.simps)
qed

text \<open>
  \<^verbatim>\<open>strings.TrimRight(s, cutset)\<close> returns \<^verbatim>\<open>s\<close> without the trailing characters that occur in
  \<^verbatim>\<open>cutset\<close>: the second argument is a set of characters, not a suffix. For a cutset of ASCII
  bytes the library compares bytes; otherwise it reads \<^verbatim>\<open>s\<close> backwards character by
  character (\<^verbatim>\<open>trimRightUnicode\<close>).
\<close>

definition ascii :: "string \<Rightarrow> bool" where
  "ascii s = list_all (\<lambda>c. (of_char c :: nat) < 128) s"

function trimRightUnicode :: "string \<Rightarrow> string \<Rightarrow> string" where
  "trimRightUnicode s cutset =
     (if s = [] then []
      else if fst (DecodeLastRune s) \<in> set (runes cutset)
      then trimRightUnicode (take (length s - snd (DecodeLastRune s)) s) cutset
      else s)"
  by pat_completeness auto
termination
proof (relation "measure (\<lambda>(s, cutset). length s)")
  show "wf (measure (\<lambda>(s :: string, cutset :: string). length s))" by simp
next
  fix s cutset :: string
  assume "s \<noteq> []"
  then obtain b bs where r: "rev s = b # bs"
    by (cases "rev s") auto
  have k: "start_back bs' n = Some k \<Longrightarrow> 0 < n \<Longrightarrow> 0 < k" for bs' k n
    by (induction bs' n rule: start_back.induct) (auto split: if_splits)
  have "0 < snd (DecodeLastRune s)"
    using r k [of bs 2] by (auto simp add: DecodeLastRune_def split: option.splits)
  moreover have "0 < length s" using \<open>s \<noteq> []\<close> by simp
  ultimately show "((take (length s - snd (DecodeLastRune s)) s, cutset), s, cutset)
                     \<in> measure (\<lambda>(s, cutset). length s)"
    by simp
qed

declare trimRightUnicode.simps [simp del]

definition TrimRight :: "string \<Rightarrow> string \<Rightarrow> string" where
  "TrimRight s cutset =
     (if ascii cutset then rev (dropWhile (\<lambda>c. c \<in> set cutset) (rev s))
      else trimRightUnicode s cutset)"

text \<open>
  \<^verbatim>\<open>unicode.IsSpace\<close>: the characters with the property White_Space.
\<close>

definition IsSpace :: "nat \<Rightarrow> bool" where
  "IsSpace r =
     ((9 \<le> r \<and> r \<le> 13) \<or> r = 32 \<or> r = 133 \<or> r = 160 \<or> r = 5760
      \<or> (8192 \<le> r \<and> r \<le> 8202) \<or> r = 8232 \<or> r = 8233 \<or> r = 8239 \<or> r = 8287
      \<or> r = 12288)"

text \<open>
  \<^verbatim>\<open>strings.TrimLeftFunc\<close> and \<^verbatim>\<open>strings.TrimRightFunc\<close> with \<^verbatim>\<open>unicode.IsSpace\<close>: the first
  reads forwards, the second backwards, each as long as the character is white space.
\<close>

function TrimLeftFunc :: "string \<Rightarrow> string" where
  "TrimLeftFunc [] = []"
| "TrimLeftFunc (c # s) =
     (if IsSpace (fst (DecodeRune (c # s)))
      then TrimLeftFunc (drop (snd (DecodeRune (c # s))) (c # s))
      else c # s)"
  by pat_completeness auto
termination
proof (relation "measure length")
  show "wf (measure length)" by simp
next
  fix c :: char and s :: string
  have "0 < snd (DecodeRune (c # s))"
    by (simp add: Let_def split: list.split)
  then show "(drop (snd (DecodeRune (c # s))) (c # s), c # s) \<in> measure length"
    by (simp del: DecodeRune.simps)
qed

function TrimRightFunc :: "string \<Rightarrow> string" where
  "TrimRightFunc s =
     (if s = [] then []
      else if IsSpace (fst (DecodeLastRune s))
      then TrimRightFunc (take (length s - snd (DecodeLastRune s)) s)
      else s)"
  by pat_completeness auto
termination
proof (relation "measure length")
  show "wf (measure length)" by simp
next
  fix s :: string
  assume "s \<noteq> []"
  then obtain b bs where r: "rev s = b # bs"
    by (cases "rev s") auto
  have k: "start_back bs' n = Some k \<Longrightarrow> 0 < n \<Longrightarrow> 0 < k" for bs' k n
    by (induction bs' n rule: start_back.induct) (auto split: if_splits)
  have "0 < snd (DecodeLastRune s)"
    using r k [of bs 2] by (auto simp add: DecodeLastRune_def split: option.splits)
  moreover have "0 < length s" using \<open>s \<noteq> []\<close> by simp
  ultimately show "(take (length s - snd (DecodeLastRune s)) s, s) \<in> measure length"
    by simp
qed

declare TrimRightFunc.simps [simp del]

text \<open>
  \<^verbatim>\<open>strings.TrimSpace\<close>. The first loop skips the leading ASCII white space and hands the
  rest to the two functions above at the first byte from 128 on; the second loop does the
  same from the end, with \<^verbatim>\<open>TrimRightFunc\<close>.
\<close>

definition asciiSpace :: "char \<Rightarrow> bool" where
  "asciiSpace c = ((of_char c :: nat) \<in> {9, 10, 11, 12, 13, 32})"

function TrimSpace_stop :: "string \<Rightarrow> string" where
  "TrimSpace_stop s =
     (if s = [] then []
      else if 128 \<le> (of_char (last s) :: nat) then TrimRightFunc s
      else if asciiSpace (last s) then TrimSpace_stop (butlast s)
      else s)"
  by pat_completeness auto
termination
  by (relation "measure length") auto

declare TrimSpace_stop.simps [simp del]

fun TrimSpace :: "string \<Rightarrow> string" where
  "TrimSpace [] = []"
| "TrimSpace (c # s) =
     (if 128 \<le> (of_char c :: nat) then TrimRightFunc (TrimLeftFunc (c # s))
      else if asciiSpace c then TrimSpace s
      else TrimSpace_stop (c # s))"

text \<open>
  \<^verbatim>\<open>strings.EqualFold\<close>. The first loop compares bytes as long as both are below 128: equal
  bytes, or an upper-case letter and its lower-case letter. At the first byte from 128 on
  it goes over to the loop that compares characters (\<^verbatim>\<open>hasUnicode\<close>). There, two
  different characters that are not both ASCII are looked up in the case tables of
  package \<^verbatim>\<open>unicode\<close>: the library steps with \<^verbatim>\<open>unicode.SimpleFold\<close> from the smaller
  character through its class of simple case folding and accepts when it arrives at the
  larger one. The tables are a parameter: \<open>orbit lo hi\<close> tells whether that search, started
  at \<open>lo\<close>, arrives at \<open>hi\<close>.
\<close>

definition rune_fold_eq :: "(nat \<Rightarrow> nat \<Rightarrow> bool) \<Rightarrow> nat \<Rightarrow> nat \<Rightarrow> bool" where
  "rune_fold_eq orbit sr tr =
     (if tr = sr then True
      else (let lo = (if tr < sr then tr else sr);
                hi = (if tr < sr then sr else tr)
            in if hi < 128 then 65 \<le> lo \<and> lo \<le> 90 \<and> hi = lo + 32
               else orbit lo hi))"

function EqualFold_unicode :: "(nat \<Rightarrow> nat \<Rightarrow> bool) \<Rightarrow> string \<Rightarrow> string \<Rightarrow> bool" where
  "EqualFold_unicode orbit [] t = (t = [])"
| "EqualFold_unicode orbit (c # s) [] = False"
| "EqualFold_unicode orbit (c # s) (d # t) =
     (if rune_fold_eq orbit (fst (DecodeRune (c # s))) (fst (DecodeRune (d # t)))
      then EqualFold_unicode orbit (drop (snd (DecodeRune (c # s))) (c # s))
             (drop (snd (DecodeRune (d # t))) (d # t))
      else False)"
  by pat_completeness auto
termination
proof (relation "measure (\<lambda>(orbit, s, t). length s)")
  show "wf (measure (\<lambda>(orbit :: nat \<Rightarrow> nat \<Rightarrow> bool, s :: string, t :: string). length s))"
    by simp
next
  fix orbit :: "nat \<Rightarrow> nat \<Rightarrow> bool" and c d :: char and s t :: string
  have "0 < snd (DecodeRune (c # s))"
    by (simp add: Let_def split: list.split)
  then show "((orbit, drop (snd (DecodeRune (c # s))) (c # s),
               drop (snd (DecodeRune (d # t))) (d # t)), orbit, c # s, d # t)
             \<in> measure (\<lambda>(orbit, s, t). length s)"
    by (simp del: DecodeRune.simps)
qed

fun EqualFold :: "(nat \<Rightarrow> nat \<Rightarrow> bool) \<Rightarrow> string \<Rightarrow> string \<Rightarrow> bool" where
  "EqualFold orbit [] [] = True"
| "EqualFold orbit (sr # s) (tr # t) =
     (if 128 \<le> (of_char sr :: nat) \<or> 128 \<le> (of_char tr :: nat)
      then EqualFold_unicode orbit (sr # s) (tr # t)
      else if tr = sr then EqualFold orbit s t
      else (let lo = (if (of_char tr :: nat) < of_char sr then tr else sr);
                hi = (if (of_char tr :: nat) < of_char sr then sr else tr)
            in if (65 :: nat) \<le> of_char lo \<and> (of_char lo :: nat) \<le> 90
                  \<and> (of_char hi :: nat) = of_char lo + 32
               then EqualFold orbit s t else False))"
| "EqualFold orbit [] (tr # t) = False"
| "EqualFold orbit (sr # s) [] = False"

text \<open>
  The words of the specification, for comparison with these loops. Two characters are
  equal up to case when they are the same, or an ASCII letter in its two cases, or, one of
  them being beyond ASCII, in one class of the case tables. A string is trimmed by removing
  the white-space characters at its two ends. Two codes match when, trimmed, they have the
  same number of characters and these are equal up to case, one by one. The last
  definition removes a suffix.
\<close>

definition spec_case_equal :: "(nat \<Rightarrow> nat \<Rightarrow> bool) \<Rightarrow> nat \<Rightarrow> nat \<Rightarrow> bool" where
  "spec_case_equal orbit x y =
     (x = y
      \<or> (65 \<le> min x y \<and> min x y \<le> 90 \<and> max x y = min x y + 32)
      \<or> (128 \<le> max x y \<and> orbit (min x y) (max x y)))"

definition spec_trim :: "string \<Rightarrow> string" where
  "spec_trim s = TrimRightFunc (TrimLeftFunc s)"

definition spec_codes_match :: "(nat \<Rightarrow> nat \<Rightarrow> bool) \<Rightarrow> string \<Rightarrow> string \<Rightarrow> bool" where
  "spec_codes_match orbit a b =
     list_all2 (spec_case_equal orbit) (runes (spec_trim a)) (runes (spec_trim b))"

definition spec_trim_suffix :: "string \<Rightarrow> string \<Rightarrow> string" where
  "spec_trim_suffix s suf = (if suffix suf s then take (length s - length suf) s else s)"

subsection \<open>Data\<close>

text \<open>
  \<^verbatim>\<open>Domain\<close> and \<^verbatim>\<open>PA\<close> are declared in other files of the package; the records hold the
  fields that crawler.go reads.
\<close>

record Domain =
  Host :: string
  UseTokenFor :: "string list"
  BasicAuth :: "string list"

record PA =
  PA_Name :: string
  CodiceIPA :: string
  UnknownIPA :: bool
  Organizations :: "string list"
  Repositories :: "string list"

record Repository =
  Name :: string
  Hostname :: string
  FileRawURL :: string
  GitCloneURL :: string
  GitBranch :: string
  Repo_Domain :: Domain
  Pa :: PA
  Headers :: "(string \<times> string) list"
  Metadata :: string

text \<open>The fields of \<^verbatim>\<open>publiccode.Parser\<close> that the crawler sets or reads.\<close>

record Parser =
  Strict :: bool
  RemoteBaseURL :: string
  Riuso_CodiceIPA :: string

definition NewParser :: Parser where
  "NewParser = \<lparr>Strict = True, RemoteBaseURL = [], Riuso_CodiceIPA = []\<rparr>"

subsection \<open>Collaborators and their calls\<close>

text \<open>
  The crawler calls code that is not in crawler.go: the HTTP client, the publiccode parser,
  the Elasticsearch helpers, the configuration, and methods of the package declared in
  other files (\<^verbatim>\<open>KnownHost\<close>, \<^verbatim>\<open>generateAPIURLs\<close>, \<^verbatim>\<open>processAndGetNextURL\<close>,
  \<^verbatim>\<open>processSingleRepo\<close>, \<^verbatim>\<open>CloneRepository\<close>, \<^verbatim>\<open>CalculateRepoActivity\<close>, \<^verbatim>\<open>saveToES\<close>,
  \<^verbatim>\<open>logBadYamlToFile\<close>, \<^verbatim>\<open>GetAllBlackListedRepos\<close>). Each is a parameter: the record \<open>env\<close>
  gives, for the arguments of a call, what the call returns during the run. A function that
  pushes candidates onto the channel it is given returns the candidates it pushes.
  The last field stands for the case tables of package \<^verbatim>\<open>unicode\<close>, as \<^verbatim>\<open>strings.EqualFold\<close>
  consults them.
  \<^verbatim>\<open>float64\<close> values are only handed from one collaborator to the next; they are \<^typ>\<open>real\<close>.
\<close>

record env =
  CRAWLED_FILENAME :: string
  ACTIVITY_DAYS :: "int option"
  ELASTIC_PUBLICCODE_INDEX :: string
  ELASTIC_PUBLISHERS_INDEX :: string
  ELASTIC_ALIAS :: string
  GetURL :: "string \<Rightarrow> (string \<times> string) list \<Rightarrow> int \<times> string \<times> string option"
  ParseInDomain :: "Parser \<Rightarrow> string \<Rightarrow> string \<Rightarrow> string list \<Rightarrow> string list \<Rightarrow> Parser \<times> string option"
  CloneRepository :: "Domain \<Rightarrow> string \<Rightarrow> string \<Rightarrow> string \<Rightarrow> string \<Rightarrow> string \<Rightarrow> string option"
  CalculateRepoActivity :: "Repository \<Rightarrow> int \<Rightarrow> real \<times> real list \<times> string option"
  saveToES :: "Repository \<Rightarrow> real \<Rightarrow> int list \<Rightarrow> string \<Rightarrow> string option"
  Flush :: "string \<Rightarrow> string option"
  AliasUpdate :: "string \<Rightarrow> string \<Rightarrow> string option"
  KnownHost :: "string \<Rightarrow> Domain \<times> string option"
  generateAPIURLs :: "Domain \<Rightarrow> string \<Rightarrow> string list \<times> string option"
  processAndGetNextURL :: "Domain \<Rightarrow> string \<Rightarrow> PA \<Rightarrow> Repository list \<times> string \<times> string option"
  processSingleRepo :: "Domain \<Rightarrow> string \<Rightarrow> PA \<Rightarrow> Repository list \<times> string option"
  GetAllBlackListedRepos :: "string \<rightharpoonup> string"
  SimpleFold_orbit :: "nat \<Rightarrow> nat \<Rightarrow> bool"

text \<open>
  The effects of a run are the calls it makes, in the order it makes them. Each event
  carries the arguments of its call. Log lines are not events: an error that the source
  only logs leaves no trace here.
\<close>

datatype event =
    CounterInc string string
  | Fetched string "(string \<times> string) list"
  | Parsed string string string
  | BadYamlLogged string
  | Cloned string string
  | ActivityComputed string int
  | SavedToES string real "int list" string
  | Flushed string
  | AliasUpdated string string
  | ApiUrlsGenerated string
  | Listed string
  | SingleRepoListed string

subsection \<open>Channels\<close>

text \<open>
  A buffered channel is its capacity, the values pending in its buffer and whether it was
  closed. A send with no receiver waiting goes through when the buffer has room and
  blocks when the buffer is full; a send on a closed channel panics.
\<close>

record 'a chan =
  cap :: nat
  buf :: "'a list"
  chan_closed :: bool

datatype 'a send_result = Sent "'a chan" | SendBlocks | SendPanics

definition make_chan :: "nat \<Rightarrow> 'a chan" where
  "make_chan n = \<lparr>cap = n, buf = [], chan_closed = False\<rparr>"

definition chan_send :: "'a chan \<Rightarrow> 'a \<Rightarrow> 'a send_result" where
  "chan_send ch x =
     (if chan_closed ch then SendPanics
      else if length (buf ch) < cap ch then Sent (ch\<lparr>buf := buf ch @ [x]\<rparr>)
      else SendBlocks)"

text \<open>Closing a channel that is closed already panics: the result is \<^term>\<open>None\<close>.\<close>

definition chan_close :: "'a chan \<Rightarrow> 'a chan option" where
  "chan_close ch = (if chan_closed ch then None else Some (ch\<lparr>chan_closed := True\<rparr>))"

text \<open>Several sends in a row, none of them received in between.\<close>

fun send_all :: "'a chan \<Rightarrow> 'a list \<Rightarrow> 'a send_result" where
  "send_all ch [] = Sent ch"
| "send_all ch (x # xs) =
     (case chan_send ch x of
        Sent ch' \<Rightarrow> send_all ch' xs
      | SendBlocks \<Rightarrow> SendBlocks
      | SendPanics \<Rightarrow> SendPanics)"

text \<open>
  What a call does in the end: it returns, or it never returns (a goroutine blocked for
  ever, a loop that does not end), or it panics.
\<close>

datatype 'a outcome = Returns 'a | NeverReturns | Panics

subsection \<open>The crawler\<close>

record Crawler =
  index :: string
  repositories :: "Repository chan"

text \<open>\<^verbatim>\<open>NewCrawler\<close>: the index name and the channel of repositories (the start-up checks,
  fatal when they fail, come before any crawling).\<close>

definition NewCrawler :: "env \<Rightarrow> Crawler" where
  "NewCrawler e = \<lparr>index = ELASTIC_PUBLICCODE_INDEX e, repositories = make_chan 1000\<rparr>"

subsection \<open>validateFile\<close>

text \<open>The case tables of package \<^verbatim>\<open>unicode\<close> come with the record of the collaborators.\<close>

definition validateFile :: "env \<Rightarrow> PA \<Rightarrow> Parser \<Rightarrow> string \<Rightarrow> string option" where
  "validateFile e pa parser fileRawURL =
     (if \<not> EqualFold (SimpleFold_orbit e)
             (TrimSpace (CodiceIPA pa)) (TrimSpace (Riuso_CodiceIPA parser))
      then Some (''codiceIPA for: '' @ fileRawURL @ '' is '' @ Riuso_CodiceIPA parser
                 @ '', which differs from the one assigned to the org in the whitelist: ''
                 @ CodiceIPA pa)
      else None)"

subsection \<open>getRemoteFile, validateRemoteFile\<close>

definition getRemoteFile ::
  "env \<Rightarrow> string \<Rightarrow> string \<Rightarrow> PA \<Rightarrow> Domain \<Rightarrow> event list \<Rightarrow> (Parser \<times> string option) \<times> event list" where
  "getRemoteFile e data fileRawURL pa domain t =
     (let parser = NewParser\<lparr>Strict := False\<rparr>;
          parser = parser\<lparr>RemoteBaseURL := TrimRight fileRawURL (CRAWLED_FILENAME e)\<rparr>
      in (ParseInDomain e parser data (Host domain) (UseTokenFor domain) (BasicAuth domain),
          t @ [Parsed (RemoteBaseURL parser) data (Host domain)]))"

definition validateRemoteFile ::
  "env \<Rightarrow> string \<Rightarrow> string \<Rightarrow> PA \<Rightarrow> Domain \<Rightarrow> event list \<Rightarrow> string option \<times> event list" where
  "validateRemoteFile e data fileRawURL pa domain t =
     (case getRemoteFile e data fileRawURL pa domain t of
        ((parser, Some err), t') \<Rightarrow> (Some err, t')
      | ((parser, None), t') \<Rightarrow> (validateFile e pa parser fileRawURL, t'))"

subsection \<open>ProcessRepo, ProcessRepositories\<close>

text \<open>The conversion \<^verbatim>\<open>int(v)\<close> of a \<^verbatim>\<open>float64\<close> drops the fraction, for a value in the
  range of \<^verbatim>\<open>int\<close>.\<close>

definition float64_to_int :: "real \<Rightarrow> int" where
  "float64_to_int v = (if v < 0 then \<lceil>v\<rceil> else \<lfloor>v\<rfloor>)"

definition ProcessRepo :: "env \<Rightarrow> Crawler \<Rightarrow> Repository \<Rightarrow> event list \<Rightarrow> event list" where
  "ProcessRepo e c repository t =
     (let t1 = t @ [CounterInc ''repository_processed'' (index c)];
          (code, body, err) = GetURL e (FileRawURL repository) (Headers repository);
          t2 = t1 @ [Fetched (FileRawURL repository) (Headers repository)]
      in if code \<noteq> 200 \<or> err \<noteq> None then t2
         else
           (case (if UnknownIPA (Pa repository) then (None, t2)
                  else validateRemoteFile e body (FileRawURL repository) (Pa repository)
                         (Repo_Domain repository) t2) of
              (Some verr, t3) \<Rightarrow> t3 @ [BadYamlLogged (FileRawURL repository)]
            | (None, t3) \<Rightarrow>
                (let cerr = CloneRepository e (Repo_Domain repository) (Hostname repository)
                              (Name repository) (GitCloneURL repository) (GitBranch repository) (index c);
                     t4 = t3 @ [Cloned (GitCloneURL repository) (GitBranch repository)];
                     activityDays = (case ACTIVITY_DAYS e of Some d \<Rightarrow> d | None \<Rightarrow> 60);
                     (activityIndex, vitality, aerr) = CalculateRepoActivity e repository activityDays;
                     t5 = t4 @ [ActivityComputed (Name repository) activityDays];
                     vitalitySlice = map float64_to_int vitality;
                     serr = saveToES e repository activityIndex vitalitySlice body
                 in t5 @ [SavedToES (FileRawURL repository) activityIndex vitalitySlice body])))"

text \<open>
  \<^verbatim>\<open>crawl\<close> starts five workers, each running \<^verbatim>\<open>ProcessRepositories\<close> on the same unbuffered
  channel; every candidate is received by one of them. The model runs the candidates one
  after the other in the order of the channel, which is one of the schedules.
\<close>

fun ProcessRepositories :: "env \<Rightarrow> Crawler \<Rightarrow> Repository list \<Rightarrow> event list \<Rightarrow> event list" where
  "ProcessRepositories e c [] t = t"
| "ProcessRepositories e c (repository # repos) t =
     ProcessRepositories e c repos (ProcessRepo e c repository t)"

subsection \<open>removeBlackListedFromRepositories\<close>

text \<open>
  The loop receives from \<^verbatim>\<open>c.repositories\<close> until that channel is closed and drained;
  \<open>intake\<close> is the sequence of candidates it receives. No other goroutine holds \<^verbatim>\<open>temp\<close>
  before the function returns, so a send that blocks on it blocks for ever.
\<close>

fun blacklist_loop ::
  "(string \<rightharpoonup> string) \<Rightarrow> Repository list \<Rightarrow> string list \<Rightarrow> Repository chan
   \<Rightarrow> (string list \<times> Repository chan) outcome" where
  "blacklist_loop listedRepos [] toBeRemoved temp = Returns (toBeRemoved, temp)"
| "blacklist_loop listedRepos (repo # rest) toBeRemoved temp =
     (case listedRepos (GitCloneURL repo) of
        Some val \<Rightarrow> blacklist_loop listedRepos rest (toBeRemoved @ [val]) temp
      | None \<Rightarrow>
          (case chan_send temp repo of
             Sent temp' \<Rightarrow> blacklist_loop listedRepos rest toBeRemoved temp'
           | SendBlocks \<Rightarrow> NeverReturns
           | SendPanics \<Rightarrow> Panics))"

definition removeBlackListedFromRepositories ::
  "Crawler \<Rightarrow> Repository list \<Rightarrow> (string \<rightharpoonup> string) \<Rightarrow> (string list \<times> Crawler) outcome" where
  "removeBlackListedFromRepositories c intake listedRepos =
     (case blacklist_loop listedRepos intake [] (make_chan 1000) of
        Returns (toBeRemoved, temp) \<Rightarrow>
          (case chan_close temp of
             Some temp' \<Rightarrow> Returns (toBeRemoved, c\<lparr>repositories := temp'\<rparr>)
           | None \<Rightarrow> Panics)
      | NeverReturns \<Rightarrow> NeverReturns
      | Panics \<Rightarrow> Panics)"

subsection \<open>crawl\<close>

text \<open>
  The loop over \<^verbatim>\<open>c.repositories\<close> ends when the channel is closed and drained; on a
  channel that nobody closes it blocks once the buffer is empty. The error of \<^verbatim>\<open>Flush\<close> is
  logged and dropped. The metrics server runs in a goroutine of its own and is left out;
  the deferred wait for the publishers returns at once, since both callers close the
  channel after the last push.
\<close>

definition crawl :: "env \<Rightarrow> Crawler \<Rightarrow> event list \<Rightarrow> (string option \<times> event list) outcome" where
  "crawl e c t =
     (if \<not> chan_closed (repositories c) then NeverReturns
      else
        (let t1 = ProcessRepositories e c (buf (repositories c)) t;
             ferr = Flush e (index c);
             t2 = t1 @ [Flushed (index c)];
             t3 = t2 @ [AliasUpdated (ELASTIC_PUBLISHERS_INDEX e) (ELASTIC_ALIAS e)]
         in case AliasUpdate e (ELASTIC_PUBLISHERS_INDEX e) (ELASTIC_ALIAS e) of
              Some err \<Rightarrow> Returns (Some (''Error updating Elastic Alias: '' @ err), t3)
            | None \<Rightarrow>
                (let t4 = t3 @ [AliasUpdated (index c) (ELASTIC_ALIAS e)]
                 in case AliasUpdate e (index c) (ELASTIC_ALIAS e) of
                      Some err \<Rightarrow> Returns (Some (''Error updating Elastic Alias: '' @ err), t4)
                    | None \<Rightarrow> Returns (None, t4))))"

subsection \<open>CrawlOrg, CrawlPublisher\<close>

text \<open>
  The producers push candidates onto \<^verbatim>\<open>c.repositories\<close> while the blacklist filter receives
  from it. Their state is the sequence of candidates pushed so far and the calls made so
  far. The pages of a seed URL are followed until the driver reports an error or an empty
  next URL; nothing bounds their number, so the loop is a partial function and a
  pagination that never ends is \<^term>\<open>None\<close>. An error of \<^verbatim>\<open>KnownHost\<close> or of
  \<^verbatim>\<open>generateAPIURLs\<close> is logged, and the crawl goes on with what the call returned.
\<close>

datatype page_end = PageError | EndReached

partial_function (option) page_loop ::
  "env \<Rightarrow> Domain \<Rightarrow> PA \<Rightarrow> string \<Rightarrow> Repository list \<times> event list
   \<Rightarrow> (page_end \<times> Repository list \<times> event list) option" where
  "page_loop e domain pa orgURL st =
     (case processAndGetNextURL e domain orgURL pa of
        (repos, nextURL, err) \<Rightarrow>
          (let st' = (fst st @ repos, snd st @ [Listed orgURL])
           in if err \<noteq> None then Some (PageError, st')
              else if nextURL = [] then Some (EndReached, st')
              else page_loop e domain pa nextURL st'))"

text \<open>
  The loop labelled \<^verbatim>\<open>ORG\<close>: after an error the source continues with the next seed URL
  (\<^verbatim>\<open>continue ORG\<close>); after an empty next URL it executes \<^verbatim>\<open>return\<close>, which leaves
  \<^verbatim>\<open>CrawlOrg\<close>.
\<close>

fun seed_loop ::
  "env \<Rightarrow> Domain \<Rightarrow> PA \<Rightarrow> string list \<Rightarrow> Repository list \<times> event list
   \<Rightarrow> (Repository list \<times> event list) option" where
  "seed_loop e domain pa [] st = Some st"
| "seed_loop e domain pa (orgURL # rest) st =
     (case page_loop e domain pa orgURL st of
        None \<Rightarrow> None
      | Some (PageError, st') \<Rightarrow> seed_loop e domain pa rest st'
      | Some (EndReached, st') \<Rightarrow> Some st')"

definition CrawlOrg ::
  "env \<Rightarrow> string \<Rightarrow> Domain \<Rightarrow> PA \<Rightarrow> Repository list \<times> event list
   \<Rightarrow> (Repository list \<times> event list) option" where
  "CrawlOrg e orgURL domain pa st =
     (case generateAPIURLs e domain orgURL of
        (orgURLs, err) \<Rightarrow>
          seed_loop e domain pa orgURLs (fst st, snd st @ [ApiUrlsGenerated orgURL]))"

fun orgs_loop ::
  "env \<Rightarrow> PA \<Rightarrow> string list \<Rightarrow> Repository list \<times> event list
   \<Rightarrow> (Repository list \<times> event list) option" where
  "orgs_loop e pa [] st = Some st"
| "orgs_loop e pa (orgURL # rest) st =
     (case KnownHost e orgURL of
        (domain, err) \<Rightarrow>
          (case CrawlOrg e orgURL domain pa st of
             None \<Rightarrow> None
           | Some st' \<Rightarrow> orgs_loop e pa rest st'))"

fun repos_loop ::
  "env \<Rightarrow> PA \<Rightarrow> string list \<Rightarrow> Repository list \<times> event list \<Rightarrow> Repository list \<times> event list" where
  "repos_loop e pa [] st = st"
| "repos_loop e pa (repoURL # rest) st =
     (case KnownHost e repoURL of
        (domain, err) \<Rightarrow>
          (case processSingleRepo e domain repoURL pa of
             (repos, perr) \<Rightarrow>
               repos_loop e pa rest (fst st @ repos, snd st @ [SingleRepoListed repoURL])))"

definition CrawlPublisher ::
  "env \<Rightarrow> PA \<Rightarrow> Repository list \<times> event list \<Rightarrow> (Repository list \<times> event list) option" where
  "CrawlPublisher e pa st =
     (case orgs_loop e pa (Organizations pa) st of
        None \<Rightarrow> None
      | Some st' \<Rightarrow> Some (repos_loop e pa (Repositories pa) st'))"

subsection \<open>CrawlPublishers, CrawlRepo\<close>

text \<open>
  \<^verbatim>\<open>CrawlPublishers\<close> starts one goroutine for each publisher; the model runs the publishers
  one after the other, which is one of the schedules. The channel is closed when all of
  them are done, so the filter returns only if every pagination ends.
\<close>

fun publishers_loop ::
  "env \<Rightarrow> PA list \<Rightarrow> Repository list \<times> event list \<Rightarrow> (Repository list \<times> event list) option" where
  "publishers_loop e [] st = Some st"
| "publishers_loop e (pa # rest) st =
     (case CrawlPublisher e pa st of
        None \<Rightarrow> None
      | Some st' \<Rightarrow> publishers_loop e rest st')"

definition CrawlPublishers ::
  "env \<Rightarrow> Crawler \<Rightarrow> PA list \<Rightarrow> event list \<Rightarrow> ((string list \<times> string option) \<times> event list) outcome" where
  "CrawlPublishers e c publishers t =
     (case publishers_loop e publishers ([], t) of
        None \<Rightarrow> NeverReturns
      | Some (intake, t1) \<Rightarrow>
          (case removeBlackListedFromRepositories c intake (GetAllBlackListedRepos e) of
             Returns (toBeRemoved, c') \<Rightarrow>
               (case crawl e c' t1 of
                  Returns (err, t2) \<Rightarrow> Returns ((toBeRemoved, err), t2)
                | NeverReturns \<Rightarrow> NeverReturns
                | Panics \<Rightarrow> Panics)
           | NeverReturns \<Rightarrow> NeverReturns
           | Panics \<Rightarrow> Panics))"

text \<open>
  In \<^verbatim>\<open>CrawlRepo\<close> nothing receives from \<^verbatim>\<open>c.repositories\<close> before \<^verbatim>\<open>crawl\<close> runs: the pushes
  of \<^verbatim>\<open>processSingleRepo\<close> go into the buffer.
\<close>

definition CrawlRepo ::
  "env \<Rightarrow> Crawler \<Rightarrow> string \<Rightarrow> PA \<Rightarrow> event list \<Rightarrow> (string option \<times> event list) outcome" where
  "CrawlRepo e c repoURL pa t =
     (case KnownHost e repoURL of
        (domain, Some err) \<Rightarrow> Returns (Some err, t)
      | (domain, None) \<Rightarrow>
          (case processSingleRepo e domain repoURL pa of
             (repos, perr) \<Rightarrow>
               (let t1 = t @ [SingleRepoListed repoURL]
                in case send_all (repositories c) repos of
                     SendBlocks \<Rightarrow> NeverReturns
                   | SendPanics \<Rightarrow> Panics
                   | Sent ch \<Rightarrow>
                       (case perr of
                          Some err \<Rightarrow> Returns (Some err, t1)
                        | None \<Rightarrow>
                            (case chan_close ch of
                               None \<Rightarrow> Panics
                             | Some ch' \<Rightarrow> crawl e (c\<lparr>repositories := ch'\<rparr>) t1)))))"

subsection \<open>What the blacklist filter is to compute\<close>

text \<open>
  The candidates whose clone URL is not a key of the blacklist, in the order of the intake,
  and the external ids of the others, one for each such candidate.
\<close>

definition forwarded :: "(string \<rightharpoonup> string) \<Rightarrow> Repository list \<Rightarrow> Repository list" where
  "forwarded listedRepos intake = filter (\<lambda>repo. listedRepos (GitCloneURL repo) = None) intake"

definition removal_list :: "(string \<rightharpoonup> string) \<Rightarrow> Repository list \<Rightarrow> string list" where
  "removal_list listedRepos intake = List.map_filter (\<lambda>repo. listedRepos (GitCloneURL repo)) intake"

subsection \<open>Reading a trace\<close>

text \<open>The arguments of the calls of \<^verbatim>\<open>logBadYamlToFile\<close>, and the calls of \<^verbatim>\<open>saveToES\<close>.\<close>

fun dead_letter :: "event list \<Rightarrow> string list" where
  "dead_letter [] = []"
| "dead_letter (BadYamlLogged url # t) = url # dead_letter t"
| "dead_letter (ev # t) = dead_letter t"

fun is_publication :: "event \<Rightarrow> bool" where
  "is_publication (SavedToES url activityIndex vitality body) = True"
| "is_publication ev = False"

definition publications :: "event list \<Rightarrow> event list" where
  "publications t = filter is_publication t"

subsection \<open>Concrete runs\<close>

text \<open>
  A small world for the closed examples: one hosting domain, publishers of the
  administration \<^verbatim>\<open>ABC123\<close>, one repository, and collaborators that answer as follows unless
  an example changes them: every fetch is a 404, every manifest parses and names the
  administration \<^verbatim>\<open>abc123\<close>, every other call succeeds, nothing is blacklisted.
\<close>

definition example_domain :: Domain where
  "example_domain = \<lparr>Host = ''github.com'', UseTokenFor = [], BasicAuth = []\<rparr>"

definition example_pa :: PA where
  "example_pa = \<lparr>PA_Name = ''Comune di Esempio'', CodiceIPA = ''ABC123 '', UnknownIPA = False,
     Organizations = [''https://github.com/acme''], Repositories = []\<rparr>"

definition example_repo :: Repository where
  "example_repo = \<lparr>Name = ''demo'', Hostname = ''github.com'',
     FileRawURL = ''https://raw.githubusercontent.com/acme/demo/master/publiccode.yml'',
     GitCloneURL = ''https://github.com/acme/demo.git'', GitBranch = ''master'',
     Repo_Domain = example_domain, Pa = example_pa, Headers = [], Metadata = []\<rparr>"

text \<open>
  An excerpt of the case tables: the pairs of a smaller and a larger character of one
  class, the larger beyond ASCII, for the letters of Latin-1 and Latin Extended-A and the
  basic Greek and Cyrillic letters. Among them are the classes of \<^verbatim>\<open>K\<close> (with the Kelvin
  sign), \<^verbatim>\<open>S\<close> (with the long s), the micro sign (with the Greek mu), the letter A with ring
  (with the Angstrom sign), the sharp s and the y with diaeresis. The dotted capital I and
  the dotless small i (U+0130, U+0131) are alone in their classes.
\<close>

definition example_SimpleFold_orbit :: "nat \<Rightarrow> nat \<Rightarrow> bool" where
  "example_SimpleFold_orbit lo hi =
     ((lo, hi) \<in> {(0x4B, 0x212A), (0x6B, 0x212A), (0x53, 0x17F), (0x73, 0x17F),
                  (0xB5, 0x39C), (0xB5, 0x3BC), (0xC5, 0x212B), (0xE5, 0x212B),
                  (0xDF, 0x1E9E), (0xFF, 0x178)}
      \<or> (0xC0 \<le> lo \<and> lo \<le> 0xDE \<and> lo \<noteq> 0xD7 \<and> hi = lo + 0x20)
      \<or> (0x100 \<le> lo \<and> lo \<le> 0x12E \<and> even lo \<and> hi = lo + 1)
      \<or> (0x132 \<le> lo \<and> lo \<le> 0x136 \<and> even lo \<and> hi = lo + 1)
      \<or> (0x139 \<le> lo \<and> lo \<le> 0x147 \<and> odd lo \<and> hi = lo + 1)
      \<or> (0x14A \<le> lo \<and> lo \<le> 0x176 \<and> even lo \<and> hi = lo + 1)
      \<or> (0x179 \<le> lo \<and> lo \<le> 0x17D \<and> odd lo \<and> hi = lo + 1)
      \<or> (0x391 \<le> lo \<and> lo \<le> 0x3AB \<and> lo \<noteq> 0x3A2 \<and> hi = lo + 0x20)
      \<or> (0x400 \<le> lo \<and> lo \<le> 0x40F \<and> hi = lo + 0x50)
      \<or> (0x410 \<le> lo \<and> lo \<le> 0x42F \<and> hi = lo + 0x20))"

definition example_env :: env where
  "example_env = \<lparr>
     CRAWLED_FILENAME = ''publiccode.yml'',
     ACTIVITY_DAYS = None,
     ELASTIC_PUBLICCODE_INDEX = ''publiccode'',
     ELASTIC_PUBLISHERS_INDEX = ''publishers'',
     ELASTIC_ALIAS = ''publiccode_alias'',
     GetURL = (\<lambda>url headers. (404, [], None)),
     ParseInDomain = (\<lambda>parser data host useTokenFor basicAuth.
        (parser\<lparr>Riuso_CodiceIPA := ''abc123''\<rparr>, None)),
     CloneRepository = (\<lambda>domain hostname name gitURL gitBranch idx. None),
     CalculateRepoActivity = (\<lambda>repository days. (0, [], None)),
     saveToES = (\<lambda>repository activityIndex vitality body. None),
     Flush = (\<lambda>idx. None),
     AliasUpdate = (\<lambda>idx alias. None),
     KnownHost = (\<lambda>url. (example_domain, None)),
     generateAPIURLs = (\<lambda>domain url. ([url], None)),
     processAndGetNextURL = (\<lambda>domain url pa. ([], [], None)),
     processSingleRepo = (\<lambda>domain url pa. ([], None)),
     GetAllBlackListedRepos = Map.empty,
     SimpleFold_orbit = example_SimpleFold_orbit\<rparr>"

definition example_crawler :: Crawler where
  "example_crawler = NewCrawler example_env"

text \<open>The same world with a manifest at every URL.\<close>

definition example_env_found :: env where
  "example_env_found = example_env\<lparr>GetURL := (\<lambda>url headers. (200, ''publiccodeYmlVersion: 0.2'', None))\<rparr>"

text \<open>A manifest that names another administration, and a manifest that does not parse.\<close>

definition example_env_mismatch :: env where
  "example_env_mismatch = example_env_found\<lparr>ParseInDomain :=
     (\<lambda>parser data host useTokenFor basicAuth. (parser\<lparr>Riuso_CodiceIPA := ''XYZ999''\<rparr>, None))\<rparr>"

definition example_env_bad_schema :: env where
  "example_env_bad_schema = example_env_found\<lparr>ParseInDomain :=
     (\<lambda>parser data host useTokenFor basicAuth. (parser, Some ''publiccodeYmlVersion: missing''))\<rparr>"

text \<open>
  An organization with two seed URLs. The listing of the first is empty and ends with the
  given error (or without one); the listing of the second holds the repository.
\<close>

definition example_env_seeds :: "string option \<Rightarrow> env" where
  "example_env_seeds first_error = example_env\<lparr>
     generateAPIURLs := (\<lambda>domain url.
        ([''https://api.github.com/orgs/acme/repos'', ''https://api.github.com/users/acme/repos''], None)),
     processAndGetNextURL := (\<lambda>domain url pa.
        if url = ''https://api.github.com/orgs/acme/repos'' then ([], [], first_error)
        else ([example_repo], [], None))\<rparr>"

text \<open>A single-repository crawl whose flush fails while both alias updates succeed.\<close>

definition example_env_flush_fails :: env where
  "example_env_flush_fails = example_env\<lparr>
     Flush := (\<lambda>idx. Some ''flush failed''),
     processSingleRepo := (\<lambda>domain url pa. ([example_repo], None))\<rparr>"

text \<open>An alias update that fails for the index of the manifests.\<close>

definition example_env_alias_fails :: env where
  "example_env_alias_fails = example_env\<lparr>
     AliasUpdate := (\<lambda>idx alias. if idx = ''publiccode'' then Some ''no such index'' else None)\<rparr>"

text \<open>Candidates that differ in name and clone URL.\<close>

definition numbered_repo :: "nat \<Rightarrow> Repository" where
  "numbered_repo n = example_repo\<lparr>
     Name := ''demo-'' @ replicate n (CHR ''i''),
     GitCloneURL := ''https://github.com/acme/demo-'' @ replicate n (CHR ''i'') @ ''.git''\<rparr>"

text \<open>
  The same organization with a listing of two pages: the first seed URL fails, the second
  lists the repository and names a second page, which lists another repository.
\<close>

definition example_env_pages :: env where
  "example_env_pages = example_env\<lparr>
     generateAPIURLs := (\<lambda>domain url.
        ([''https://api.github.com/orgs/acme/repos'', ''https://api.github.com/users/acme/repos''], None)),
     processAndGetNextURL := (\<lambda>domain url pa.
        if url = ''https://api.github.com/orgs/acme/repos'' then ([], [], Some ''404'')
        else if url = ''https://api.github.com/users/acme/repos''
        then ([example_repo], ''https://api.github.com/users/acme/repos?page=2'', None)
        else if url = ''https://api.github.com/users/acme/repos?page=2''
        then ([numbered_repo 1], [], None)
        else ([], [], None))\<rparr>"

section \<open>Properties\<close>

subsection \<open>Comparison of the codes\<close>

text \<open>On bytes below 128 the readers of characters return the byte itself.\<close>

lemma DecodeRune_ascii:
  "(of_char c :: nat) < 128 \<Longrightarrow> DecodeRune (c # s) = (of_char c, 1)"
  by simp

lemma DecodeLastRune_ascii:
  "s \<noteq> [] \<Longrightarrow> (of_char (last s) :: nat) < 128 \<Longrightarrow> DecodeLastRune s = (of_char (last s), 1)"
  by (cases s rule: rev_cases) (simp_all add: DecodeLastRune_def)

lemma IsSpace_ascii:
  "(of_char c :: nat) < 128 \<Longrightarrow> IsSpace (of_char c) = asciiSpace c"
  by (auto simp add: IsSpace_def asciiSpace_def)

lemma TrimLeftFunc_ascii:
  "(of_char c :: nat) < 128 \<Longrightarrow>
   TrimLeftFunc (c # s) = (if asciiSpace c then TrimLeftFunc s else c # s)"
  by (simp add: IsSpace_ascii DecodeRune_ascii del: DecodeRune.simps)

lemma TrimRightFunc_ascii:
  "s \<noteq> [] \<Longrightarrow> (of_char (last s) :: nat) < 128 \<Longrightarrow>
   TrimRightFunc s = (if asciiSpace (last s) then TrimRightFunc (butlast s) else s)"
  by (subst TrimRightFunc.simps) (simp add: DecodeLastRune_ascii IsSpace_ascii butlast_conv_take)

text \<open>The two loops of \<^verbatim>\<open>TrimSpace\<close> remove the white space at the two ends.\<close>

lemma TrimSpace_stop_eq: "TrimSpace_stop s = TrimRightFunc s"
proof (induction s rule: TrimSpace_stop.induct)
  case (1 s)
  show ?case
  proof (cases "s = []")
    case True
    then show ?thesis
      by (simp add: TrimRightFunc.simps [of "[]"] TrimSpace_stop.simps [of "[]"])
  next
    case False
    show ?thesis
    proof (cases "128 \<le> (of_char (last s) :: nat)")
      case True
      then show ?thesis using False by (subst TrimSpace_stop.simps) simp
    next
      case hi: False
      then have lt: "(of_char (last s) :: nat) < 128" by simp
      show ?thesis
      proof (cases "asciiSpace (last s)")
        case True
        have "TrimSpace_stop s = TrimSpace_stop (butlast s)"
          using False hi True by (subst TrimSpace_stop.simps) simp
        also have "\<dots> = TrimRightFunc (butlast s)"
          using 1 False hi True by simp
        also have "\<dots> = TrimRightFunc s"
          using TrimRightFunc_ascii [OF False lt] True by simp
        finally show ?thesis .
      next
        case nsp: False
        have "TrimSpace_stop s = s"
          using False hi nsp by (subst TrimSpace_stop.simps) simp
        then show ?thesis
          using TrimRightFunc_ascii [OF False lt] nsp by simp
      qed
    qed
  qed
qed

lemma TrimSpace_spec_trim: "TrimSpace s = spec_trim s"
proof (induction s)
  case Nil
  then show ?case by (simp add: spec_trim_def TrimRightFunc.simps [of "[]"])
next
  case (Cons c s)
  show ?case
  proof (cases "128 \<le> (of_char c :: nat)")
    case True
    then show ?thesis by (simp add: spec_trim_def del: TrimLeftFunc.simps)
  next
    case False
    then have lt: "(of_char c :: nat) < 128" by simp
    show ?thesis
      using False Cons TrimLeftFunc_ascii [OF lt, of s]
      by (simp add: spec_trim_def TrimSpace_stop_eq del: TrimLeftFunc.simps)
  qed
qed

text \<open>The loops of \<^verbatim>\<open>EqualFold\<close> compare the characters of the two strings one by one.\<close>

lemma rune_fold_eq_spec: "rune_fold_eq orbit x y = spec_case_equal orbit x y"
  by (auto simp add: rune_fold_eq_def spec_case_equal_def Let_def min_def max_def)

lemma EqualFold_unicode_runes:
  "EqualFold_unicode orbit s t = list_all2 (spec_case_equal orbit) (runes s) (runes t)"
proof (induction orbit s t rule: EqualFold_unicode.induct)
  case (1 orbit t)
  show ?case by (cases t) (simp_all del: DecodeRune.simps)
next
  case (2 orbit c s)
  show ?case by (simp del: DecodeRune.simps)
next
  case (3 orbit c s d t)
  then show ?case by (simp add: rune_fold_eq_spec del: DecodeRune.simps)
qed

lemma EqualFold_ascii_step:
  assumes "(of_char sr :: nat) < 128" and "(of_char tr :: nat) < 128"
  shows "rune_fold_eq orbit (of_char sr) (of_char tr) =
           (tr = sr \<or> (let lo = (if (of_char tr :: nat) < of_char sr then tr else sr);
                           hi = (if (of_char tr :: nat) < of_char sr then sr else tr)
                       in (65 :: nat) \<le> of_char lo \<and> (of_char lo :: nat) \<le> 90
                          \<and> (of_char hi :: nat) = of_char lo + 32))"
  using assms by (auto simp add: rune_fold_eq_def Let_def)

lemma EqualFold_unicode_ascii:
  assumes "(of_char sr :: nat) < 128" and "(of_char tr :: nat) < 128"
  shows "EqualFold_unicode orbit (sr # s) (tr # t) =
           (rune_fold_eq orbit (of_char sr) (of_char tr) \<and> EqualFold_unicode orbit s t)"
  using assms by (auto simp add: DecodeRune_ascii simp del: DecodeRune.simps)

lemma EqualFold_eq_unicode: "EqualFold orbit s t = EqualFold_unicode orbit s t"
proof (induction orbit s t rule: EqualFold.induct)
  case (2 orbit sr s tr t)
  show ?case
  proof (cases "128 \<le> (of_char sr :: nat) \<or> 128 \<le> (of_char tr :: nat)")
    case True
    then show ?thesis by (simp del: EqualFold_unicode.simps DecodeRune.simps)
  next
    case False
    then have a: "(of_char sr :: nat) < 128" and b: "(of_char tr :: nat) < 128" by simp_all
    show ?thesis
      using False 2
      unfolding EqualFold_unicode_ascii [OF a b] EqualFold_ascii_step [OF a b]
      by (auto simp add: Let_def simp del: EqualFold_unicode.simps DecodeRune.simps)
  qed
qed (simp_all del: DecodeRune.simps)

lemma EqualFold_runes:
  "EqualFold orbit s t = list_all2 (spec_case_equal orbit) (runes s) (runes t)"
  by (simp only: EqualFold_eq_unicode EqualFold_unicode_runes)

text \<open>The equations that evaluate the functions of package strings on a given string.\<close>

lemmas strings_eval =
  TrimSpace_stop.simps TrimRightFunc.simps trimRightUnicode.simps DecodeLastRune_def
  RuneStart_def continuation_def RuneError_def IsSpace_def asciiSpace_def rune_fold_eq_def
  ascii_def

text \<open>
  C4. For every whitelist code and every administration code, \<^verbatim>\<open>validateFile\<close> returns no
  error exactly when the two codes match: trimmed of the white space at their ends, they
  are equal character by character up to case. Otherwise it returns the error that
  reports the URL and the two codes.
\<close>

theorem validateFile_whitelist_match:
  "(validateFile e pa parser fileRawURL = None)
     = spec_codes_match (SimpleFold_orbit e) (CodiceIPA pa) (Riuso_CodiceIPA parser)
   \<and> (validateFile e pa parser fileRawURL = None
      \<or> validateFile e pa parser fileRawURL =
           Some (''codiceIPA for: '' @ fileRawURL @ '' is '' @ Riuso_CodiceIPA parser
             @ '', which differs from the one assigned to the org in the whitelist: ''
             @ CodiceIPA pa))"
  by (simp add: validateFile_def spec_codes_match_def EqualFold_runes TrimSpace_spec_trim)

text \<open>
  The two examples of the specification: \<^verbatim>\<open>"ABC123 "\<close> matches \<^verbatim>\<open>"abc123"\<close>, and
  \<^verbatim>\<open>"ABC123"\<close> against \<^verbatim>\<open>"XYZ999"\<close> is reported. Beyond ASCII: the Kelvin sign, \<^verbatim>\<open>1\<close>, a
  capital E with acute accent and a no-break space (bytes E2 84 AA, 31, C3 89, C2 A0)
  match \<^verbatim>\<open>k1\<close> followed by a small e with acute accent (bytes 6B, 31, C3 A9).
\<close>

theorem validateFile_whitelist_match_witness:
  "validateFile example_env example_pa (NewParser\<lparr>Riuso_CodiceIPA := ''abc123''\<rparr>) ''u'' = None
   \<and> validateFile example_env (example_pa\<lparr>CodiceIPA := ''ABC123''\<rparr>)
        (NewParser\<lparr>Riuso_CodiceIPA := ''XYZ999''\<rparr>) ''u''
       = Some ''codiceIPA for: u is XYZ999, which differs from the one assigned to the org in the whitelist: ABC123''
   \<and> validateFile example_env
        (example_pa\<lparr>CodiceIPA := [CHR 0xE2, CHR 0x84, CHR 0xAA, CHR 0x31, CHR 0xC3, CHR 0x89,
                                  CHR 0xC2, CHR 0xA0]\<rparr>)
        (NewParser\<lparr>Riuso_CodiceIPA := [CHR 0x6B, CHR 0x31, CHR 0xC3, CHR 0xA9]\<rparr>) ''u'' = None"
  using validateFile_whitelist_match [of example_env example_pa
      "NewParser\<lparr>Riuso_CodiceIPA := ''abc123''\<rparr>" "''u''"]
    validateFile_whitelist_match [of example_env "example_pa\<lparr>CodiceIPA := ''ABC123''\<rparr>"
      "NewParser\<lparr>Riuso_CodiceIPA := ''XYZ999''\<rparr>" "''u''"]
    validateFile_whitelist_match [of example_env
      "example_pa\<lparr>CodiceIPA := [CHR 0xE2, CHR 0x84, CHR 0xAA, CHR 0x31, CHR 0xC3, CHR 0x89,
                                  CHR 0xC2, CHR 0xA0]\<rparr>"
      "NewParser\<lparr>Riuso_CodiceIPA := [CHR 0x6B, CHR 0x31, CHR 0xC3, CHR 0xA9]\<rparr>" "''u''"]
  by (simp add: example_pa_def example_env_def example_SimpleFold_orbit_def NewParser_def
      validateFile_def strings_eval)

subsection \<open>The base URL of the parser\<close>

text \<open>
  When the URL is a base, one character that does not occur in the ASCII file name (the \<^verbatim>\<open>/\<close>
  of the URLs that the hosting domains build) and the file name, \<^verbatim>\<open>TrimRight\<close> stops at that
  character and the result is the removal of the suffix.
\<close>

lemma TrimRight_after_separator:
  "ascii filename \<Longrightarrow> c \<notin> set filename \<Longrightarrow>
   TrimRight (base @ c # filename) filename = base @ [c]"
  by (simp add: TrimRight_def dropWhile_append)

text \<open>
  C8, evaluated. The base URL handed to the parser is the URL without its trailing
  characters from the set of characters of the file name. With a manifest kept in a
  directory (file name \<^verbatim>\<open>docs/publiccode.yml\<close>) the \<^verbatim>\<open>/\<close> before the file name is trimmed
  as well; with the file name \<^verbatim>\<open>publiccode.yml\<close> and a URL that ends in
  \<^verbatim>\<open>elm.publiccode.yml\<close> the characters of \<^verbatim>\<open>elm.\<close> are trimmed as well. Removing the suffix
  gives another URL in both cases.
\<close>

theorem getRemoteFile_base_url_is_cutset_trim:
  "snd (getRemoteFile (example_env\<lparr>CRAWLED_FILENAME := ''docs/publiccode.yml''\<rparr>) ''data''
       ''https://raw.githubusercontent.com/acme/demo/master/docs/publiccode.yml''
       example_pa example_domain [])
     = [Parsed ''https://raw.githubusercontent.com/acme/demo/master'' ''data'' ''github.com'']
   \<and> spec_trim_suffix ''https://raw.githubusercontent.com/acme/demo/master/docs/publiccode.yml''
        ''docs/publiccode.yml''
     = ''https://raw.githubusercontent.com/acme/demo/master/''
   \<and> snd (getRemoteFile example_env ''data''
       ''https://raw.githubusercontent.com/acme/demo/master/elm.publiccode.yml''
       example_pa example_domain [])
     = [Parsed ''https://raw.githubusercontent.com/acme/demo/master/'' ''data'' ''github.com'']
   \<and> spec_trim_suffix ''https://raw.githubusercontent.com/acme/demo/master/elm.publiccode.yml''
        (CRAWLED_FILENAME example_env)
     = ''https://raw.githubusercontent.com/acme/demo/master/elm.''"
  by (simp add: getRemoteFile_def example_env_def example_domain_def NewParser_def TrimRight_def
      ascii_def spec_trim_suffix_def suffix_def)

subsection \<open>One candidate in a worker\<close>

lemma validateRemoteFile_trace:
  "snd (validateRemoteFile e data url pa domain t)
     = t @ [Parsed (TrimRight url (CRAWLED_FILENAME e)) data (Host domain)]"
  by (simp add: validateRemoteFile_def getRemoteFile_def Let_def split: prod.splits option.splits)

lemma validateRemoteFile_result:
  "fst (validateRemoteFile e data url pa domain t) = fst (validateRemoteFile e data url pa domain [])"
  by (simp add: validateRemoteFile_def getRemoteFile_def Let_def split: prod.splits option.splits)

text \<open>A validation fails when the parser reports an error, or else when the codes differ.\<close>

lemma validateRemoteFile_fails:
  "fst (validateRemoteFile e data url pa domain t) =
     (case ParseInDomain e
             (NewParser\<lparr>Strict := False, RemoteBaseURL := TrimRight url (CRAWLED_FILENAME e)\<rparr>)
             data (Host domain) (UseTokenFor domain) (BasicAuth domain) of
        (parser, Some err) \<Rightarrow> Some err
      | (parser, None) \<Rightarrow> validateFile e pa parser url)"
  by (simp add: validateRemoteFile_def getRemoteFile_def Let_def split: prod.splits option.splits)

text \<open>
  C6. When the fetch of the manifest returns a status other than 200 or an error,
  \<^verbatim>\<open>ProcessRepo\<close> makes two calls, the counter and the fetch, and returns: no parse, no entry
  in the dead-letter file, no clone, no activity computation, no publication.
\<close>

theorem ProcessRepo_fetch_failure:
  assumes "GetURL e (FileRawURL repository) (Headers repository) = (code, body, err)"
    and "code \<noteq> 200 \<or> err \<noteq> None"
  shows "ProcessRepo e c repository t =
           t @ [CounterInc ''repository_processed'' (index c),
                Fetched (FileRawURL repository) (Headers repository)]"
  using assms by (auto simp add: ProcessRepo_def Let_def)

theorem ProcessRepo_fetch_failure_witness:
  "GetURL example_env (FileRawURL example_repo) (Headers example_repo) = (404, [], None)
   \<and> ProcessRepo example_env example_crawler example_repo [] =
       [CounterInc ''repository_processed'' ''publiccode'',
        Fetched ''https://raw.githubusercontent.com/acme/demo/master/publiccode.yml'' []]"
  using ProcessRepo_fetch_failure [of example_env example_repo 404 "[]" None example_crawler "[]"]
  by (simp add: example_env_def example_repo_def example_crawler_def NewCrawler_def)

text \<open>
  C5. When the publisher of a candidate has the flag \<^verbatim>\<open>UnknownIPA\<close> and the manifest was
  fetched, \<^verbatim>\<open>ProcessRepo\<close> calls neither the parser nor the dead-letter log, whatever the
  manifest says: after the fetch come the clone, the activity computation and the
  publication.
\<close>

theorem ProcessRepo_unknown_ipa:
  assumes "UnknownIPA (Pa repository)"
    and "GetURL e (FileRawURL repository) (Headers repository) = (200, body, None)"
  shows "ProcessRepo e c repository t =
           t @ [CounterInc ''repository_processed'' (index c),
                Fetched (FileRawURL repository) (Headers repository),
                Cloned (GitCloneURL repository) (GitBranch repository),
                ActivityComputed (Name repository) (case ACTIVITY_DAYS e of Some d \<Rightarrow> d | None \<Rightarrow> 60),
                SavedToES (FileRawURL repository)
                  (fst (CalculateRepoActivity e repository
                     (case ACTIVITY_DAYS e of Some d \<Rightarrow> d | None \<Rightarrow> 60)))
                  (map float64_to_int (fst (snd (CalculateRepoActivity e repository
                     (case ACTIVITY_DAYS e of Some d \<Rightarrow> d | None \<Rightarrow> 60)))))
                  body]"
  using assms by (simp add: ProcessRepo_def Let_def split: prod.splits)

text \<open>
  A manifest of the administration \<^verbatim>\<open>XYZ999\<close> in a repository of the publisher \<^verbatim>\<open>ABC123\<close>:
  the validation would report it, and with the flag set the candidate is published.
\<close>

theorem ProcessRepo_unknown_ipa_witness:
  "UnknownIPA (Pa (example_repo\<lparr>Pa := example_pa\<lparr>UnknownIPA := True\<rparr>\<rparr>))
   \<and> GetURL example_env_mismatch (FileRawURL example_repo) (Headers example_repo)
       = (200, ''publiccodeYmlVersion: 0.2'', None)
   \<and> fst (validateRemoteFile example_env_mismatch ''publiccodeYmlVersion: 0.2''
            (FileRawURL example_repo) example_pa example_domain []) \<noteq> None
   \<and> ProcessRepo example_env_mismatch example_crawler
        (example_repo\<lparr>Pa := example_pa\<lparr>UnknownIPA := True\<rparr>\<rparr>) [] =
       [CounterInc ''repository_processed'' ''publiccode'',
        Fetched ''https://raw.githubusercontent.com/acme/demo/master/publiccode.yml'' [],
        Cloned ''https://github.com/acme/demo.git'' ''master'',
        ActivityComputed ''demo'' 60,
        SavedToES ''https://raw.githubusercontent.com/acme/demo/master/publiccode.yml'' 0 []
          ''publiccodeYmlVersion: 0.2'']"
  using ProcessRepo_unknown_ipa [of "example_repo\<lparr>Pa := example_pa\<lparr>UnknownIPA := True\<rparr>\<rparr>"
      example_env_mismatch "''publiccodeYmlVersion: 0.2''" example_crawler "[]"]
  by (simp add: example_env_mismatch_def example_env_found_def example_env_def example_repo_def
      example_pa_def example_domain_def example_crawler_def NewCrawler_def validateRemoteFile_fails
      validateFile_def strings_eval NewParser_def)

text \<open>
  C7, as the code has it. When the manifest was fetched, the flag \<^verbatim>\<open>UnknownIPA\<close> is unset and
  the validation fails (the parser reports an error, or the codes differ), \<^verbatim>\<open>ProcessRepo\<close>
  calls \<^verbatim>\<open>logBadYamlToFile\<close> with the URL of the manifest and returns: no clone, no activity
  computation, no publication. The worker goes on with the candidates that follow.
\<close>

theorem ProcessRepo_validation_failure:
  assumes "\<not> UnknownIPA (Pa repository)"
    and "GetURL e (FileRawURL repository) (Headers repository) = (200, body, None)"
    and "fst (validateRemoteFile e body (FileRawURL repository) (Pa repository)
               (Repo_Domain repository) []) = Some verr"
  shows "ProcessRepo e c repository t =
           t @ [CounterInc ''repository_processed'' (index c),
                Fetched (FileRawURL repository) (Headers repository),
                Parsed (TrimRight (FileRawURL repository) (CRAWLED_FILENAME e)) body
                  (Host (Repo_Domain repository)),
                BadYamlLogged (FileRawURL repository)]
         \<and> ProcessRepositories e c (repository # repos) t =
             ProcessRepositories e c repos
               (t @ [CounterInc ''repository_processed'' (index c),
                     Fetched (FileRawURL repository) (Headers repository),
                     Parsed (TrimRight (FileRawURL repository) (CRAWLED_FILENAME e)) body
                       (Host (Repo_Domain repository)),
                     BadYamlLogged (FileRawURL repository)])"
proof -
  let ?t2 = "t @ [CounterInc ''repository_processed'' (index c),
                  Fetched (FileRawURL repository) (Headers repository)]"
  let ?p = "Parsed (TrimRight (FileRawURL repository) (CRAWLED_FILENAME e)) body
              (Host (Repo_Domain repository))"
  let ?v = "validateRemoteFile e body (FileRawURL repository) (Pa repository)
              (Repo_Domain repository) ?t2"
  have "fst ?v = Some verr"
    using assms(3) validateRemoteFile_result [of e body _ _ _ ?t2] by simp
  moreover have "snd ?v = ?t2 @ [?p]"
    by (rule validateRemoteFile_trace)
  ultimately have "?v = (Some verr, ?t2 @ [?p])"
    by (metis prod.collapse)
  then have "ProcessRepo e c repository t = ?t2 @ [?p, BadYamlLogged (FileRawURL repository)]"
    using assms(1,2) by (simp add: ProcessRepo_def Let_def)
  then show ?thesis by simp
qed

text \<open>
  A manifest that does not parse, followed by a second candidate: the first leaves its URL
  in the dead-letter file, the second is processed (its publisher has the flag set).
\<close>

theorem ProcessRepo_validation_failure_witness:
  "\<not> UnknownIPA (Pa example_repo)
   \<and> GetURL example_env_bad_schema (FileRawURL example_repo) (Headers example_repo)
       = (200, ''publiccodeYmlVersion: 0.2'', None)
   \<and> fst (validateRemoteFile example_env_bad_schema ''publiccodeYmlVersion: 0.2''
            (FileRawURL example_repo) (Pa example_repo) (Repo_Domain example_repo) [])
       = Some ''publiccodeYmlVersion: missing''
   \<and> ProcessRepositories example_env_bad_schema example_crawler
        [example_repo, example_repo\<lparr>Pa := example_pa\<lparr>UnknownIPA := True\<rparr>\<rparr>] [] =
       [CounterInc ''repository_processed'' ''publiccode'',
        Fetched ''https://raw.githubusercontent.com/acme/demo/master/publiccode.yml'' [],
        Parsed ''https://raw.githubusercontent.com/acme/demo/master/'' ''publiccodeYmlVersion: 0.2''
          ''github.com'',
        BadYamlLogged ''https://raw.githubusercontent.com/acme/demo/master/publiccode.yml'',
        CounterInc ''repository_processed'' ''publiccode'',
        Fetched ''https://raw.githubusercontent.com/acme/demo/master/publiccode.yml'' [],
        Cloned ''https://github.com/acme/demo.git'' ''master'',
        ActivityComputed ''demo'' 60,
        SavedToES ''https://raw.githubusercontent.com/acme/demo/master/publiccode.yml'' 0 []
          ''publiccodeYmlVersion: 0.2'']"
  using ProcessRepo_validation_failure [of example_repo example_env_bad_schema
      "''publiccodeYmlVersion: 0.2''" "''publiccodeYmlVersion: missing''" example_crawler "[]"
      "[example_repo\<lparr>Pa := example_pa\<lparr>UnknownIPA := True\<rparr>\<rparr>]"]
  by (simp add: example_env_bad_schema_def example_env_found_def example_env_def example_repo_def
      example_pa_def example_domain_def example_crawler_def NewCrawler_def validateRemoteFile_fails
      NewParser_def TrimRight_def ascii_def ProcessRepo_def)

text \<open>
  C7, as the specification has it, fails: the dead-letter call receives the URL. For a
  manifest of another administration the arguments of the calls of \<^verbatim>\<open>logBadYamlToFile\<close> are
  the URL alone, and the content that was fetched is not among them.
\<close>

theorem dead_letter_holds_url_not_content:
  "GetURL example_env_mismatch (FileRawURL example_repo) (Headers example_repo)
       = (200, ''publiccodeYmlVersion: 0.2'', None)
   \<and> dead_letter (ProcessRepo example_env_mismatch example_crawler example_repo [])
       = [''https://raw.githubusercontent.com/acme/demo/master/publiccode.yml'']
   \<and> ''publiccodeYmlVersion: 0.2''
       \<notin> set (dead_letter (ProcessRepo example_env_mismatch example_crawler example_repo []))"
  by (simp add: example_env_mismatch_def example_env_found_def example_env_def example_repo_def
      example_pa_def example_domain_def example_crawler_def NewCrawler_def validateRemoteFile_def
      getRemoteFile_def validateFile_def strings_eval NewParser_def ProcessRepo_def)


subsection \<open>The seed URLs of an organization\<close>

text \<open>
  C2, as the specification has it, fails. The first seed URL of the organization lists its
  only page without an error; \<^verbatim>\<open>CrawlOrg\<close> returns there, and the second seed URL, whose
  listing holds a repository, is not requested: nothing is pushed.
\<close>

theorem CrawlOrg_second_seed_skipped:
  "generateAPIURLs (example_env_seeds None) example_domain ''https://github.com/acme''
     = ([''https://api.github.com/orgs/acme/repos'', ''https://api.github.com/users/acme/repos''], None)
   \<and> processAndGetNextURL (example_env_seeds None) example_domain
        ''https://api.github.com/users/acme/repos'' example_pa = ([example_repo], [], None)
   \<and> CrawlOrg (example_env_seeds None) ''https://github.com/acme'' example_domain example_pa ([], [])
     = Some ([], [ApiUrlsGenerated ''https://github.com/acme'',
                  Listed ''https://api.github.com/orgs/acme/repos''])"
  by (simp add: CrawlOrg_def example_env_seeds_def example_env_def page_loop.simps)

text \<open>
  C2, as the code has it. \<^verbatim>\<open>CrawlOrg\<close> runs the loop over the seed URLs that the domain
  generates. When \<^verbatim>\<open>processAndGetNextURL\<close> returns an error for the URL at the head, the
  loop goes on with the seed URLs that follow; when it returns no error and an empty next
  URL, \<^verbatim>\<open>CrawlOrg\<close> returns and the seed URLs that follow are not processed; when it
  returns no error and a next URL, the loop goes on with that URL in place of the head. In
  each case the candidates of the page have been pushed and the request recorded.
\<close>

theorem CrawlOrg_seed_steps:
  "(generateAPIURLs e domain orgURL = (orgURLs, gerr)
      \<longrightarrow> CrawlOrg e orgURL domain pa st
            = seed_loop e domain pa orgURLs (fst st, snd st @ [ApiUrlsGenerated orgURL]))
   \<and> (processAndGetNextURL e domain seed pa = (repos, nextURL, Some err)
      \<longrightarrow> seed_loop e domain pa (seed # rest) st0
            = seed_loop e domain pa rest (fst st0 @ repos, snd st0 @ [Listed seed]))
   \<and> (processAndGetNextURL e domain seed pa = (repos, [], None)
      \<longrightarrow> seed_loop e domain pa (seed # rest) st0
            = Some (fst st0 @ repos, snd st0 @ [Listed seed]))
   \<and> (processAndGetNextURL e domain seed pa = (repos, nextURL, None) \<and> nextURL \<noteq> []
      \<longrightarrow> seed_loop e domain pa (seed # rest) st0
            = seed_loop e domain pa (nextURL # rest) (fst st0 @ repos, snd st0 @ [Listed seed]))"
proof -
  have crawl_org: "generateAPIURLs e domain orgURL = (orgURLs, gerr)
      \<Longrightarrow> CrawlOrg e orgURL domain pa st
            = seed_loop e domain pa orgURLs (fst st, snd st @ [ApiUrlsGenerated orgURL])"
    by (simp add: CrawlOrg_def)
  have on_error: "processAndGetNextURL e domain seed pa = (repos, nextURL, Some err)
      \<Longrightarrow> page_loop e domain pa seed st0
            = Some (PageError, fst st0 @ repos, snd st0 @ [Listed seed])"
    by (subst page_loop.simps) simp
  have on_end: "processAndGetNextURL e domain seed pa = (repos, [], None)
      \<Longrightarrow> page_loop e domain pa seed st0
            = Some (EndReached, fst st0 @ repos, snd st0 @ [Listed seed])"
    by (subst page_loop.simps) simp
  have on_next: "processAndGetNextURL e domain seed pa = (repos, nextURL, None) \<Longrightarrow> nextURL \<noteq> []
      \<Longrightarrow> page_loop e domain pa seed st0
            = page_loop e domain pa nextURL (fst st0 @ repos, snd st0 @ [Listed seed])"
    by (subst page_loop.simps) simp
  show ?thesis
    using crawl_org on_error on_end on_next by simp
qed

text \<open>
  The first seed URL fails with a 404; the second lists a repository and names a second
  page, which lists another repository and ends the listing. All three URLs are requested
  and both repositories are pushed.
\<close>

theorem CrawlOrg_seed_steps_witness:
  "generateAPIURLs example_env_pages example_domain ''https://github.com/acme''
     = ([''https://api.github.com/orgs/acme/repos'', ''https://api.github.com/users/acme/repos''], None)
   \<and> processAndGetNextURL example_env_pages example_domain
        ''https://api.github.com/orgs/acme/repos'' example_pa = ([], [], Some ''404'')
   \<and> processAndGetNextURL example_env_pages example_domain
        ''https://api.github.com/users/acme/repos'' example_pa
      = ([example_repo], ''https://api.github.com/users/acme/repos?page=2'', None)
   \<and> processAndGetNextURL example_env_pages example_domain
        ''https://api.github.com/users/acme/repos?page=2'' example_pa
      = ([numbered_repo 1], [], None)
   \<and> CrawlOrg example_env_pages ''https://github.com/acme'' example_domain example_pa ([], [])
      = Some ([example_repo, numbered_repo 1],
              [ApiUrlsGenerated ''https://github.com/acme'',
               Listed ''https://api.github.com/orgs/acme/repos'',
               Listed ''https://api.github.com/users/acme/repos'',
               Listed ''https://api.github.com/users/acme/repos?page=2''])"
proof -
  let ?e = "example_env_pages"
  let ?orgs = "''https://api.github.com/orgs/acme/repos''"
  let ?users = "''https://api.github.com/users/acme/repos''"
  let ?page2 = "''https://api.github.com/users/acme/repos?page=2''"
  let ?t0 = "[ApiUrlsGenerated ''https://github.com/acme'']"
  let ?t1 = "[ApiUrlsGenerated ''https://github.com/acme'', Listed ?orgs]"
  let ?t2 = "[ApiUrlsGenerated ''https://github.com/acme'', Listed ?orgs, Listed ?users]"
  let ?t3 = "[ApiUrlsGenerated ''https://github.com/acme'', Listed ?orgs, Listed ?users,
              Listed ?page2]"
  have gen: "generateAPIURLs ?e example_domain ''https://github.com/acme'' = ([?orgs, ?users], None)"
    by (simp add: example_env_pages_def example_env_def)
  have d1: "processAndGetNextURL ?e example_domain ?orgs example_pa = ([], [], Some ''404'')"
    by (simp add: example_env_pages_def example_env_def)
  have d2: "processAndGetNextURL ?e example_domain ?users example_pa = ([example_repo], ?page2, None)"
    by (simp add: example_env_pages_def example_env_def)
  have d3: "processAndGetNextURL ?e example_domain ?page2 example_pa = ([numbered_repo 1], [], None)"
    by (simp add: example_env_pages_def example_env_def)
  have s0: "CrawlOrg ?e ''https://github.com/acme'' example_domain example_pa ([], [])
              = seed_loop ?e example_domain example_pa [?orgs, ?users] ([], ?t0)"
    using CrawlOrg_seed_steps [where e = ?e and domain = example_domain
        and orgURL = "''https://github.com/acme''" and orgURLs = "[?orgs, ?users]" and gerr = None
        and pa = example_pa and st = "([], [])"] gen
    by simp
  have s1: "seed_loop ?e example_domain example_pa [?orgs, ?users] ([], ?t0)
              = seed_loop ?e example_domain example_pa [?users] ([], ?t1)"
    using CrawlOrg_seed_steps [where e = ?e and domain = example_domain and pa = example_pa
        and seed = ?orgs and repos = "[]" and nextURL = "[]" and err = "''404''"
        and st0 = "([], ?t0)" and rest = "[?users]"] d1
    by simp
  have s2: "seed_loop ?e example_domain example_pa [?users] ([], ?t1)
              = seed_loop ?e example_domain example_pa [?page2] ([example_repo], ?t2)"
    using CrawlOrg_seed_steps [where e = ?e and domain = example_domain and pa = example_pa
        and seed = ?users and repos = "[example_repo]" and nextURL = ?page2
        and st0 = "([], ?t1)" and rest = "[]"] d2
    by simp
  have s3: "seed_loop ?e example_domain example_pa [?page2] ([example_repo], ?t2)
              = Some ([example_repo, numbered_repo 1], ?t3)"
    using CrawlOrg_seed_steps [where e = ?e and domain = example_domain and pa = example_pa
        and seed = ?page2 and repos = "[numbered_repo 1]"
        and st0 = "([example_repo], ?t2)" and rest = "[]"] d3
    by simp
  show ?thesis
    using gen d1 d2 d3 s0 s1 s2 s3 by simp
qed

subsection \<open>The intake channel\<close>

lemma send_all_outcome:
  "\<not> chan_closed ch \<Longrightarrow> length (buf ch) \<le> cap ch \<Longrightarrow>
   send_all ch xs =
     (if length (buf ch) + length xs \<le> cap ch then Sent (ch\<lparr>buf := buf ch @ xs\<rparr>) else SendBlocks)"
proof (induction xs arbitrary: ch)
  case Nil
  then show ?case by simp
next
  case (Cons x xs)
  show ?case
  proof (cases "length (buf ch) < cap ch")
    case True
    then have s: "chan_send ch x = Sent (ch\<lparr>buf := buf ch @ [x]\<rparr>)"
      using Cons.prems by (simp add: chan_send_def)
    show ?thesis
      using True Cons.prems Cons.IH [of "ch\<lparr>buf := buf ch @ [x]\<rparr>"] by (simp add: s)
  next
    case False
    then show ?thesis using Cons.prems by (simp add: chan_send_def)
  qed
qed

text \<open>
  C9, as the code has it. The channel that \<^verbatim>\<open>NewCrawler\<close> makes has capacity 1000: after
  \<open>pending\<close> pushes that nobody received, one more push goes through when fewer than 1000
  candidates are pending and blocks otherwise.
\<close>

theorem intake_channel_capacity:
  "send_all (repositories (NewCrawler e)) (pending @ [repo]) =
     (if length pending < 1000
      then Sent \<lparr>cap = 1000, buf = pending @ [repo], chan_closed = False\<rparr>
      else SendBlocks)"
  by (simp add: NewCrawler_def make_chan_def send_all_outcome)

text \<open>
  C9, as the specification has it, fails: with 1000 candidates pending on the channel of
  \<^verbatim>\<open>NewCrawler\<close>, the next push blocks.
\<close>

theorem intake_channel_push_blocks:
  "send_all (repositories (NewCrawler example_env)) (map numbered_repo [0..<1000])
     = Sent \<lparr>cap = 1000, buf = map numbered_repo [0..<1000], chan_closed = False\<rparr>
   \<and> chan_send \<lparr>cap = 1000, buf = map numbered_repo [0..<1000], chan_closed = False\<rparr>
        (numbered_repo 1000)
     = SendBlocks"
  by (simp add: NewCrawler_def make_chan_def send_all_outcome chan_send_def del: upt_rec_numeral)

subsection \<open>The blacklist filter\<close>

lemma blacklist_loop_outcome:
  "\<not> chan_closed temp \<Longrightarrow> length (buf temp) \<le> cap temp \<Longrightarrow>
   blacklist_loop listedRepos intake toBeRemoved temp =
     (if length (buf temp) + length (forwarded listedRepos intake) \<le> cap temp
      then Returns (toBeRemoved @ removal_list listedRepos intake,
                    temp\<lparr>buf := buf temp @ forwarded listedRepos intake\<rparr>)
      else NeverReturns)"
proof (induction intake arbitrary: toBeRemoved temp)
  case Nil
  then show ?case by (simp add: forwarded_def removal_list_def)
next
  case (Cons repo rest)
  show ?case
  proof (cases "listedRepos (GitCloneURL repo)")
    case (Some val)
    then show ?thesis
      using Cons.prems Cons.IH [of temp "toBeRemoved @ [val]"]
      by (simp add: forwarded_def removal_list_def)
  next
    case None
    show ?thesis
    proof (cases "length (buf temp) < cap temp")
      case True
      then have s: "chan_send temp repo = Sent (temp\<lparr>buf := buf temp @ [repo]\<rparr>)"
        using Cons.prems by (simp add: chan_send_def)
      show ?thesis
        using None True Cons.prems Cons.IH [of "temp\<lparr>buf := buf temp @ [repo]\<rparr>" toBeRemoved]
        by (simp add: s forwarded_def removal_list_def)
    next
      case False
      then show ?thesis
        using None Cons.prems by (simp add: chan_send_def forwarded_def)
    qed
  qed
qed

text \<open>
  Each candidate of the intake is counted once, on one side: a candidate whose clone URL is
  not blacklisted occurs among the forwarded ones as often as in the intake and a
  blacklisted one does not occur there; an external id occurs in the removal list once for
  each candidate that the blacklist maps to it.
\<close>

lemma forwarded_count:
  "count_list (forwarded listedRepos intake) repo =
     (if listedRepos (GitCloneURL repo) = None then count_list intake repo else 0)"
  by (induction intake) (auto simp add: forwarded_def)

lemma removal_list_count:
  "count_list (removal_list listedRepos intake) val =
     length (filter (\<lambda>repo. listedRepos (GitCloneURL repo) = Some val) intake)"
  by (induction intake) (auto simp add: removal_list_def split: option.splits)

text \<open>When the filter returns, it has classified every candidate of the intake once.\<close>

lemma removeBlackListed_classifies:
  assumes "removeBlackListedFromRepositories c intake listedRepos = Returns (toBeRemoved, c')"
  shows "buf (repositories c') = forwarded listedRepos intake
         \<and> chan_closed (repositories c')
         \<and> toBeRemoved = removal_list listedRepos intake"
  using assms
  by (auto simp add: removeBlackListedFromRepositories_def blacklist_loop_outcome make_chan_def
      chan_close_def split: if_splits)

text \<open>
  C3, evaluated. With 1001 candidates, none of them blacklisted, the filter never returns:
  the send of the last candidate finds the buffer of \<^verbatim>\<open>temp\<close> full, and nothing receives from
  \<^verbatim>\<open>temp\<close> before the function returns. No removal list is returned and the last candidate is
  not forwarded.
\<close>

theorem removeBlackListed_1001_never_returns:
  "removeBlackListedFromRepositories example_crawler (map numbered_repo [0..<1001])
     (GetAllBlackListedRepos example_env) = NeverReturns"
  by (simp add: removeBlackListedFromRepositories_def blacklist_loop_outcome make_chan_def
      forwarded_def example_env_def del: upt_rec_numeral)

text \<open>
  C10. The filter returns exactly when at most 1000 candidates of the intake are not
  blacklisted; it then returns the removal list and leaves the forwarded candidates in the
  closed channel of capacity 1000 that replaces \<^verbatim>\<open>c.repositories\<close>. With more than 1000 such
  candidates it never returns.
\<close>

theorem removeBlackListed_returns_iff:
  "removeBlackListedFromRepositories c intake listedRepos =
     (if length (forwarded listedRepos intake) \<le> 1000
      then Returns (removal_list listedRepos intake,
             c\<lparr>repositories :=
                 \<lparr>cap = 1000, buf = forwarded listedRepos intake, chan_closed = True\<rparr>\<rparr>)
      else NeverReturns)"
  by (simp add: removeBlackListedFromRepositories_def blacklist_loop_outcome make_chan_def
      chan_close_def)

text \<open>
  An intake of 1001 candidates of which the first is blacklisted is filtered; with a
  second copy of the last candidate, 1001 are to be forwarded and the filter blocks.
\<close>

theorem removeBlackListed_returns_iff_witness:
  "removeBlackListedFromRepositories example_crawler (map numbered_repo [0..<1001])
     [GitCloneURL (numbered_repo 0) \<mapsto> ''doc-42'']
     = Returns ([''doc-42''],
         example_crawler\<lparr>repositories :=
           \<lparr>cap = 1000, buf = map numbered_repo [1..<1001], chan_closed = True\<rparr>\<rparr>)
   \<and> removeBlackListedFromRepositories example_crawler
       (map numbered_repo [0..<1001] @ [numbered_repo 1000])
       [GitCloneURL (numbered_repo 0) \<mapsto> ''doc-42'']
     = NeverReturns"
proof -
  have inj: "\<And>n. (GitCloneURL (numbered_repo n) = GitCloneURL (numbered_repo 0)) = (n = 0)"
    by (simp add: numbered_repo_def)
  have split: "[0..<1001] = 0 # [Suc 0..<1001]"
    by (rule upt_conv_Cons) simp
  have pos: "filter (\<lambda>n. 0 < n) [Suc 0..<1001] = [Suc 0..<1001]"
    by (rule filter_True) simp
  have neg: "filter (\<lambda>n. n = 0) [Suc 0..<1001] = []"
    by (rule filter_False) simp
  have fwd: "forwarded [GitCloneURL (numbered_repo 0) \<mapsto> ''doc-42''] (map numbered_repo [0..<1001])
               = map numbered_repo [Suc 0..<1001]"
    unfolding split by (simp add: forwarded_def inj filter_map o_def pos del: upt_rec_numeral)
  have rem: "removal_list [GitCloneURL (numbered_repo 0) \<mapsto> ''doc-42''] (map numbered_repo [0..<1001])
               = [''doc-42'']"
    unfolding split
    by (simp add: removal_list_def inj map_filter_def filter_map o_def neg del: upt_rec_numeral)
  have fwd': "forwarded [GitCloneURL (numbered_repo 0) \<mapsto> ''doc-42'']
                (map numbered_repo [0..<1001] @ [numbered_repo 1000])
               = map numbered_repo [Suc 0..<1001] @ [numbered_repo 1000]"
    using fwd by (simp add: forwarded_def inj del: upt_rec_numeral)
  show ?thesis
    using removeBlackListed_returns_iff [of example_crawler "map numbered_repo [0..<1001]"
        "[GitCloneURL (numbered_repo 0) \<mapsto> ''doc-42'']"]
      removeBlackListed_returns_iff [of example_crawler
        "map numbered_repo [0..<1001] @ [numbered_repo 1000]"
        "[GitCloneURL (numbered_repo 0) \<mapsto> ''doc-42'']"]
    by (simp add: fwd rem fwd' del: upt_rec_numeral)
qed

subsection \<open>Finalization\<close>

lemma validateRemoteFile_Flush:
  "validateRemoteFile (e\<lparr>Flush := f\<rparr>) data url pa domain t
     = validateRemoteFile e data url pa domain t"
  by (simp add: validateRemoteFile_def getRemoteFile_def validateFile_def)

lemma ProcessRepo_Flush:
  "ProcessRepo (e\<lparr>Flush := f\<rparr>) c repository t = ProcessRepo e c repository t"
  by (simp add: ProcessRepo_def validateRemoteFile_Flush Let_def
      cong: if_cong prod.case_cong option.case_cong)

lemma ProcessRepositories_Flush:
  "ProcessRepositories (e\<lparr>Flush := f\<rparr>) c repos t = ProcessRepositories e c repos t"
  by (induction repos arbitrary: t) (simp_all add: ProcessRepo_Flush)

text \<open>
  What the callers return: \<^verbatim>\<open>CrawlPublishers\<close> returns the removal list of the filter and the
  result of \<^verbatim>\<open>crawl\<close>; \<^verbatim>\<open>CrawlRepo\<close> returns the result of \<^verbatim>\<open>crawl\<close> once the host is known
  and the repository was listed without an error.
\<close>

lemma CrawlPublishers_result:
  "CrawlPublishers e c publishers t = Returns ((toBeRemoved, err), t') \<Longrightarrow>
   \<exists>intake t1 c'. publishers_loop e publishers ([], t) = Some (intake, t1)
     \<and> removeBlackListedFromRepositories c intake (GetAllBlackListedRepos e) = Returns (toBeRemoved, c')
     \<and> crawl e c' t1 = Returns (err, t')"
  by (auto simp add: CrawlPublishers_def split: option.splits prod.splits outcome.splits)

lemma CrawlRepo_result:
  "KnownHost e repoURL = (domain, None) \<Longrightarrow>
   processSingleRepo e domain repoURL pa = (repos, None) \<Longrightarrow>
   send_all (repositories c) repos = Sent ch \<Longrightarrow> \<not> chan_closed ch \<Longrightarrow>
   CrawlRepo e c repoURL pa t =
     crawl e (c\<lparr>repositories := ch\<lparr>chan_closed := True\<rparr>\<rparr>) (t @ [SingleRepoListed repoURL])"
  by (simp add: CrawlRepo_def chan_close_def)

text \<open>
  C1, as the code has it. On a closed channel \<^verbatim>\<open>crawl\<close> returns; its result is the error of
  the first alias update that fails, and no error when both succeed. What \<^verbatim>\<open>Flush\<close> returns
  changes nothing. The calls of the workers are followed by the calls of the finalization
  only: the publications are those that the workers made.
\<close>

theorem crawl_finalization:
  assumes "chan_closed (repositories c)"
  shows "(\<exists>calls. crawl e c t = Returns
            (case AliasUpdate e (ELASTIC_PUBLISHERS_INDEX e) (ELASTIC_ALIAS e) of
               Some err \<Rightarrow> Some (''Error updating Elastic Alias: '' @ err)
             | None \<Rightarrow>
                 (case AliasUpdate e (index c) (ELASTIC_ALIAS e) of
                    Some err \<Rightarrow> Some (''Error updating Elastic Alias: '' @ err)
                  | None \<Rightarrow> None),
             ProcessRepositories e c (buf (repositories c)) t @ calls)
           \<and> publications (ProcessRepositories e c (buf (repositories c)) t @ calls)
               = publications (ProcessRepositories e c (buf (repositories c)) t))
         \<and> crawl (e\<lparr>Flush := f\<rparr>) c t = crawl e c t"
  using assms
  by (simp add: crawl_def Let_def publications_def ProcessRepositories_Flush split: option.splits)

text \<open>
  A failure of the second alias update after one publication: the error is the result, and
  the publication is still in the trace.
\<close>

theorem crawl_finalization_witness:
  "chan_closed (repositories (example_crawler\<lparr>repositories :=
       \<lparr>cap = 1000, buf = [example_repo\<lparr>Pa := example_pa\<lparr>UnknownIPA := True\<rparr>\<rparr>], chan_closed = True\<rparr>\<rparr>))
   \<and> crawl (example_env_alias_fails\<lparr>GetURL := (\<lambda>url headers. (200, ''publiccodeYmlVersion: 0.2'', None))\<rparr>)
       (example_crawler\<lparr>repositories :=
          \<lparr>cap = 1000, buf = [example_repo\<lparr>Pa := example_pa\<lparr>UnknownIPA := True\<rparr>\<rparr>], chan_closed = True\<rparr>\<rparr>) []
     = Returns (Some ''Error updating Elastic Alias: no such index'',
         [CounterInc ''repository_processed'' ''publiccode'',
          Fetched ''https://raw.githubusercontent.com/acme/demo/master/publiccode.yml'' [],
          Cloned ''https://github.com/acme/demo.git'' ''master'',
          ActivityComputed ''demo'' 60,
          SavedToES ''https://raw.githubusercontent.com/acme/demo/master/publiccode.yml'' 0 []
            ''publiccodeYmlVersion: 0.2'',
          Flushed ''publiccode'',
          AliasUpdated ''publishers'' ''publiccode_alias'',
          AliasUpdated ''publiccode'' ''publiccode_alias''])"
  using crawl_finalization [of "example_crawler\<lparr>repositories :=
       \<lparr>cap = 1000, buf = [example_repo\<lparr>Pa := example_pa\<lparr>UnknownIPA := True\<rparr>\<rparr>], chan_closed = True\<rparr>\<rparr>"
      "example_env_alias_fails\<lparr>GetURL := (\<lambda>url headers. (200, ''publiccodeYmlVersion: 0.2'', None))\<rparr>"
      "[]" "\<lambda>idx. None"]
  by (simp add: example_env_alias_fails_def example_env_def example_crawler_def NewCrawler_def
      example_repo_def example_pa_def crawl_def ProcessRepo_def)

text \<open>
  C1, as the specification has it, fails for the flush: in a crawl of one repository whose
  flush fails and whose alias updates succeed, \<^verbatim>\<open>CrawlRepo\<close> returns no error.
\<close>

theorem CrawlRepo_flush_failure_not_surfaced:
  "Flush example_env_flush_fails (index example_crawler) = Some ''flush failed''
   \<and> CrawlRepo example_env_flush_fails example_crawler ''https://github.com/acme/demo'' example_pa []
     = Returns (None,
         [SingleRepoListed ''https://github.com/acme/demo'',
          CounterInc ''repository_processed'' ''publiccode'',
          Fetched ''https://raw.githubusercontent.com/acme/demo/master/publiccode.yml'' [],
          Flushed ''publiccode'',
          AliasUpdated ''publishers'' ''publiccode_alias'',
          AliasUpdated ''publiccode'' ''publiccode_alias''])"
  by (simp add: CrawlRepo_def example_env_flush_fails_def example_env_def example_crawler_def
      NewCrawler_def make_chan_def chan_send_def chan_close_def crawl_def ProcessRepo_def
      example_repo_def Let_def)


end
